theory Spec2Isabelle
  imports Complex_Main "HOL-Library.Sublist" "HOL-Library.Multiset"
    "HOL-Library.Char_ord" "HOL-Library.List_Lexorder"
begin

section \<open>Data model: the five log tables\<close>

text \<open>
  The dashboard of \<^verbatim>\<open>streamlit_upi_analyzer.py\<close> works on five pandas tables. A table
  is modelled as the list of its rows in index order, a row as a record with the columns
  that \<^verbatim>\<open>generate_synthetic_data\<close> writes. Text columns are strings, the numeric columns
  are Python integers.
\<close>

record login_event =
  timestamp :: string
  user_id :: string
  ip_address :: string
  login_status :: string
  browser :: string

record session_record =
  session_id :: string
  user_id :: string
  start_time :: string
  end_time :: string
  duration_minutes :: int

record auth_attempt =
  timestamp :: string
  ip_address :: string
  auth_status :: string
  attempt_count :: int
  failure_reason :: string

record request_log =
  timestamp :: string
  ip_address :: string
  request_type :: string
  payload_size :: int
  status_code :: int

record service_subscription =
  user_id :: string
  service_name :: string
  subscription_date :: string
  status :: string
  plan_type :: string

datatype error = ZeroDivisionError | KeyError

section \<open>The pandas operations the analysis uses\<close>

text \<open>
  \<^verbatim>\<open>df['c']\<close> reads a column, a comparison of a column with a scalar gives a boolean
  mask of the same length, \<^verbatim>\<open>|\<close> and \<^verbatim>\<open>&\<close> combine masks position by position, and
  \<^verbatim>\<open>df[mask]\<close> keeps the rows whose mask entry is true.
\<close>

definition column :: "('r \<Rightarrow> 'c) \<Rightarrow> 'r list \<Rightarrow> 'c list" where
  "column c df = map c df"

definition eq_series :: "'c list \<Rightarrow> 'c \<Rightarrow> bool list" where
  "eq_series s v = map (\<lambda>x. x = v) s"

definition lt_series :: "int list \<Rightarrow> int \<Rightarrow> bool list" where
  "lt_series s v = map (\<lambda>x. x < v) s"

definition gt_series :: "('c::linorder) list \<Rightarrow> 'c \<Rightarrow> bool list" where
  "gt_series s v = map (\<lambda>x. x > v) s"

definition isin :: "'c list \<Rightarrow> 'c list \<Rightarrow> bool list" where
  "isin s vs = map (\<lambda>x. x \<in> set vs) s"

definition or_mask :: "bool list \<Rightarrow> bool list \<Rightarrow> bool list" where
  "or_mask a b = map2 (\<or>) a b"

definition and_mask :: "bool list \<Rightarrow> bool list \<Rightarrow> bool list" where
  "and_mask a b = map2 (\<and>) a b"

definition getitem_mask :: "'r list \<Rightarrow> bool list \<Rightarrow> 'r list" where
  "getitem_mask df m = map fst (filter snd (zip df m))"

definition head :: "nat \<Rightarrow> 'r list \<Rightarrow> 'r list" where
  "head n df = take n df"


definition groupby_size :: "('r \<Rightarrow> 'k::linorder) \<Rightarrow> 'r list \<Rightarrow> ('k \<times> nat) list" where
  "groupby_size c df =
     map (\<lambda>k. (k, length (filter (\<lambda>r. c r = k) df))) (sort (remdups (column c df)))"

definition sort_values_desc :: "('k \<times> nat) list \<Rightarrow> ('k \<times> nat) list" where
  "sort_values_desc s = rev (sort_key snd (rev s))"


section \<open>The fraud risk score\<close>

text \<open>
  Python's \<^verbatim>\<open>/\<close> on two integers is true division and raises
  \<^verbatim>\<open>ZeroDivisionError\<close> when the divisor is 0. The floating-point results are
  idealised as real numbers.
\<close>

definition truediv :: "nat \<Rightarrow> nat \<Rightarrow> error + real" where
  "truediv a b = (if b = 0 then Inl ZeroDivisionError else Inr (real a / real b))"

definition bind_err :: "error + 'a \<Rightarrow> ('a \<Rightarrow> error + 'b) \<Rightarrow> error + 'b" where
  "bind_err m f = (case m of Inl e \<Rightarrow> Inl e | Inr x \<Rightarrow> f x)"

definition failed_login_rate :: "login_event list \<Rightarrow> error + real" where
  "failed_login_rate login_df =
     bind_err (truediv (length (getitem_mask login_df
                 (eq_series (column login_status login_df) ''failed''))) (length login_df))
       (\<lambda>q. Inr (q * 100))"

definition unauth_rate :: "auth_attempt list \<Rightarrow> error + real" where
  "unauth_rate unauth_df =
     bind_err (truediv (length (getitem_mask unauth_df
                 (eq_series (column auth_status unauth_df) ''unauthenticated''))) (length unauth_df))
       (\<lambda>q. Inr (q * 100))"

definition attack_rate :: "request_log list \<Rightarrow> error + real" where
  "attack_rate request_df =
     bind_err (truediv (length (getitem_mask request_df
                 (isin (column request_type request_df) [''blank'', ''dos_attack''])))
                 (length request_df))
       (\<lambda>q. Inr (q * 100))"

definition fraud_score :: "real \<Rightarrow> real \<Rightarrow> real \<Rightarrow> real" where
  "fraud_score flr ur ar = flr * 0.3 + ur * 0.4 + ar * 0.3"

definition risk_level :: "real \<Rightarrow> string" where
  "risk_level score =
     (if score < 15 then ''LOW''
      else if score < 30 then ''MEDIUM''
      else if score < 50 then ''HIGH''
      else ''CRITICAL'')"

text \<open>
  \<^verbatim>\<open>create_fraud_score_gauge\<close> returns the figure, the score and the risk level; the
  figure is presentation and is left out.
\<close>

definition create_fraud_score_gauge ::
  "login_event list \<Rightarrow> auth_attempt list \<Rightarrow> request_log list \<Rightarrow> error + (real \<times> string)" where
  "create_fraud_score_gauge login_df unauth_df request_df =
     bind_err (failed_login_rate login_df) (\<lambda>flr.
     bind_err (unauth_rate unauth_df) (\<lambda>ur.
     bind_err (attack_rate request_df) (\<lambda>ar.
       Inr (fraud_score flr ur ar, risk_level (fraud_score flr ur ar)))))"

section \<open>The anomaly detections of the dashboard\<close>

text \<open>
  The fifth tab of \<^verbatim>\<open>main\<close> computes five anomaly lists from the loaded tables; each
  definition carries the name of the local variable it models.
\<close>

definition failed_by_ip :: "login_event list \<Rightarrow> (string \<times> nat) list" where
  "failed_by_ip df1_login =
     groupby_size login_event.ip_address
       (getitem_mask df1_login (eq_series (column login_status df1_login) ''failed''))"

definition critical_ips :: "login_event list \<Rightarrow> (string \<times> nat) list" where
  "critical_ips df1_login =
     sort_values_desc
       (getitem_mask (failed_by_ip df1_login)
          (gt_series (column snd (failed_by_ip df1_login)) 5))"

definition suspicious_sessions :: "session_record list \<Rightarrow> session_record list" where
  "suspicious_sessions df2_duration =
     getitem_mask df2_duration
       (or_mask (lt_series (column duration_minutes df2_duration) 3)
                (gt_series (column duration_minutes df2_duration) 180))"

definition brute_force :: "auth_attempt list \<Rightarrow> auth_attempt list" where
  "brute_force df3_unauth =
     getitem_mask df3_unauth
       (and_mask (eq_series (column auth_status df3_unauth) ''unauthenticated'')
                 (gt_series (column attempt_count df3_unauth) 10))"

definition dos_attacks :: "request_log list \<Rightarrow> request_log list" where
  "dos_attacks df4_requests =
     getitem_mask df4_requests (eq_series (column request_type df4_requests) ''dos_attack'')"

text \<open>The per-address table of the tab is only computed when some row was flagged.\<close>

definition dos_by_ip :: "request_log list \<Rightarrow> (string \<times> nat) list option" where
  "dos_by_ip df4_requests =
     (if length (dos_attacks df4_requests) > 0
      then Some (head 10 (sort_values_desc
                   (groupby_size request_log.ip_address (dos_attacks df4_requests))))
      else None)"

definition suspended_services :: "service_subscription list \<Rightarrow> service_subscription list" where
  "suspended_services df5_services =
     getitem_mask df5_services (eq_series (column status df5_services) ''suspended'')"


section \<open>The tables as objects of a store\<close>

text \<open>
  pandas tables are mutable objects that Python passes by reference, and \<^verbatim>\<open>main\<close>
  keeps the five loaded tables in \<^verbatim>\<open>st.session_state\<close>. To speak about what the
  analysis does to them, the objects live in a store, addressed by position. A program
  takes the store and returns a result or an error, and the store it leaves. Reading a
  reference that holds no table of the expected kind is the error \<open>KeyError\<close>. Every
  pandas call of the analysis (\<^verbatim>\<open>df[mask]\<close>, \<^verbatim>\<open>groupby().size()\<close>,
  \<^verbatim>\<open>sort_values()\<close> without \<^verbatim>\<open>inplace\<close>, \<^verbatim>\<open>head()\<close>) returns a new object.
\<close>

datatype obj =
    LoginTable "login_event list"
  | SessionTable "session_record list"
  | AuthTable "auth_attempt list"
  | RequestTable "request_log list"
  | ServiceTable "service_subscription list"
  | CountSeries "(string \<times> nat) list"

type_synonym store = "obj list"

type_synonym 'a prog = "store \<Rightarrow> (error + 'a) \<times> store"

definition ret :: "'a \<Rightarrow> 'a prog" where
  "ret x h = (Inr x, h)"

definition raise :: "error \<Rightarrow> 'a prog" where
  "raise e h = (Inl e, h)"

definition bind :: "'a prog \<Rightarrow> ('a \<Rightarrow> 'b prog) \<Rightarrow> 'b prog" where
  "bind m f h = (case m h of (Inl e, h') \<Rightarrow> (Inl e, h') | (Inr x, h') \<Rightarrow> f x h')"

definition lift :: "error + 'a \<Rightarrow> 'a prog" where
  "lift v = (case v of Inl e \<Rightarrow> raise e | Inr x \<Rightarrow> ret x)"

definition alloc :: "obj \<Rightarrow> nat prog" where
  "alloc v h = (Inr (length h), h @ [v])"

definition deref :: "nat \<Rightarrow> obj prog" where
  "deref r h = (if r < length h then (Inr (h ! r), h) else (Inl KeyError, h))"

definition read_logins :: "nat \<Rightarrow> login_event list prog" where
  "read_logins r = bind (deref r) (\<lambda>v. case v of LoginTable t \<Rightarrow> ret t | _ \<Rightarrow> raise KeyError)"

definition read_sessions :: "nat \<Rightarrow> session_record list prog" where
  "read_sessions r = bind (deref r) (\<lambda>v. case v of SessionTable t \<Rightarrow> ret t | _ \<Rightarrow> raise KeyError)"

definition read_auths :: "nat \<Rightarrow> auth_attempt list prog" where
  "read_auths r = bind (deref r) (\<lambda>v. case v of AuthTable t \<Rightarrow> ret t | _ \<Rightarrow> raise KeyError)"

definition read_requests :: "nat \<Rightarrow> request_log list prog" where
  "read_requests r = bind (deref r) (\<lambda>v. case v of RequestTable t \<Rightarrow> ret t | _ \<Rightarrow> raise KeyError)"

definition read_services :: "nat \<Rightarrow> service_subscription list prog" where
  "read_services r = bind (deref r) (\<lambda>v. case v of ServiceTable t \<Rightarrow> ret t | _ \<Rightarrow> raise KeyError)"

definition run_fraud_score_gauge :: "nat \<Rightarrow> nat \<Rightarrow> nat \<Rightarrow> (real \<times> string) prog" where
  "run_fraud_score_gauge login_df unauth_df request_df =
     bind (read_logins login_df) (\<lambda>l.
     bind (alloc (LoginTable (getitem_mask l (eq_series (column login_status l) ''failed'')))) (\<lambda>_.
     bind (lift (failed_login_rate l)) (\<lambda>flr.
     bind (read_auths unauth_df) (\<lambda>u.
     bind (alloc (AuthTable (getitem_mask u
             (eq_series (column auth_status u) ''unauthenticated'')))) (\<lambda>_.
     bind (lift (unauth_rate u)) (\<lambda>ur.
     bind (read_requests request_df) (\<lambda>r.
     bind (alloc (RequestTable (getitem_mask r
             (isin (column request_type r) [''blank'', ''dos_attack''])))) (\<lambda>_.
     bind (lift (attack_rate r)) (\<lambda>ar.
       ret (fraud_score flr ur ar, risk_level (fraud_score flr ur ar)))))))))))"

definition anomaly_failed_logins :: "nat \<Rightarrow> nat prog" where
  "anomaly_failed_logins df1_login =
     bind (read_logins df1_login) (\<lambda>l.
     bind (alloc (LoginTable (getitem_mask l (eq_series (column login_status l) ''failed'')))) (\<lambda>_.
     bind (alloc (CountSeries (failed_by_ip l))) (\<lambda>_.
       alloc (CountSeries (critical_ips l)))))"

definition anomaly_sessions :: "nat \<Rightarrow> nat prog" where
  "anomaly_sessions df2_duration =
     bind (read_sessions df2_duration) (\<lambda>t. alloc (SessionTable (suspicious_sessions t)))"

definition anomaly_brute_force :: "nat \<Rightarrow> nat prog" where
  "anomaly_brute_force df3_unauth =
     bind (read_auths df3_unauth) (\<lambda>t. alloc (AuthTable (brute_force t)))"

definition anomaly_dos :: "nat \<Rightarrow> (nat \<times> nat option) prog" where
  "anomaly_dos df4_requests =
     bind (read_requests df4_requests) (\<lambda>t.
     bind (alloc (RequestTable (dos_attacks t))) (\<lambda>flagged.
       case dos_by_ip t of
         None \<Rightarrow> ret (flagged, None)
       | Some s \<Rightarrow> bind (alloc (CountSeries s)) (\<lambda>by_ip. ret (flagged, Some by_ip))))"

definition anomaly_suspended :: "nat \<Rightarrow> nat prog" where
  "anomaly_suspended df5_services =
     bind (read_services df5_services) (\<lambda>t. alloc (ServiceTable (suspended_services t)))"

definition anomaly_detection ::
  "nat \<Rightarrow> nat \<Rightarrow> nat \<Rightarrow> nat \<Rightarrow> nat \<Rightarrow> (nat \<times> nat \<times> nat \<times> (nat \<times> nat option) \<times> nat) prog" where
  "anomaly_detection df1_login df2_duration df3_unauth df4_requests df5_services =
     bind (anomaly_failed_logins df1_login) (\<lambda>a.
     bind (anomaly_sessions df2_duration) (\<lambda>b.
     bind (anomaly_brute_force df3_unauth) (\<lambda>c.
     bind (anomaly_dos df4_requests) (\<lambda>d.
     bind (anomaly_suspended df5_services) (\<lambda>e.
       ret (a, b, c, d, e))))))"

text \<open>A program extends the store when the store it leaves starts with the one it took.\<close>

definition extends :: "'a prog \<Rightarrow> bool" where
  "extends m = (\<forall>h. prefix h (snd (m h)))"

section \<open>Sample tables\<close>

definition login_row :: "string \<Rightarrow> string \<Rightarrow> login_event" where
  "login_row ip st = \<lparr>login_event.timestamp = ''2026-02-01 00:00:01'', user_id = ''USR0001'',
          ip_address = ip, login_status = st, browser = ''Chrome''\<rparr>"

definition session_row :: "string \<Rightarrow> int \<Rightarrow> session_record" where
  "session_row sid d = \<lparr>session_id = sid, user_id = ''USR0002'',
          start_time = ''2026-02-01 08:00:00'', end_time = ''2026-02-01 09:00:00'',
          duration_minutes = d\<rparr>"

definition auth_row :: "string \<Rightarrow> string \<Rightarrow> int \<Rightarrow> auth_attempt" where
  "auth_row ip st n = \<lparr>auth_attempt.timestamp = ''2026-02-01 00:00:02'', ip_address = ip,
          auth_status = st, attempt_count = n, failure_reason = ''None''\<rparr>"

definition request_row :: "string \<Rightarrow> string \<Rightarrow> request_log" where
  "request_row ip ty = \<lparr>request_log.timestamp = ''2026-02-01 00:00:03'', ip_address = ip,
          request_type = ty, payload_size = 120, status_code = 200\<rparr>"

definition service_row :: "string \<Rightarrow> string \<Rightarrow> service_subscription" where
  "service_row u st = \<lparr>service_subscription.user_id = u, service_name = ''QR_Payment'',
          subscription_date = ''2025-12-24'', status = st, plan_type = ''Gold''\<rparr>"

definition sample_logins :: "login_event list" where
  "sample_logins = [login_row ''10.0.0.1'' ''success'', login_row ''10.0.0.2'' ''failed'',
                    login_row ''10.0.0.1'' ''success'', login_row ''10.0.0.3'' ''success'']"

definition sample_auths :: "auth_attempt list" where
  "sample_auths = [auth_row ''10.0.0.1'' ''authenticated'' 1,
                   auth_row ''10.0.0.9'' ''unauthenticated'' 12]"

definition sample_requests :: "request_log list" where
  "sample_requests = [request_row ''10.0.0.1'' ''normal'', request_row ''10.0.0.9'' ''blank'',
                      request_row ''10.0.0.9'' ''dos_attack'', request_row ''10.0.0.2'' ''normal'']"


definition sample_logins_hi :: "login_event list" where
  "sample_logins_hi = [login_row ''10.0.0.2'' ''failed'']"

definition sample_auths_hi :: "auth_attempt list" where
  "sample_auths_hi = [auth_row ''10.0.0.9'' ''unauthenticated'' 12]"

definition sample_requests_hi :: "request_log list" where
  "sample_requests_hi = [request_row ''10.0.0.9'' ''dos_attack'']"

definition sample_sessions :: "session_record list" where
  "sample_sessions = [session_row ''SES00001'' 2, session_row ''SES00002'' 3,
                      session_row ''SES00003'' 30, session_row ''SES00004'' 180,
                      session_row ''SES00005'' 181]"

definition sample_attempts :: "auth_attempt list" where
  "sample_attempts = [auth_row ''10.0.0.9'' ''unauthenticated'' 10,
                      auth_row ''10.0.0.8'' ''unauthenticated'' 11,
                      auth_row ''10.0.0.1'' ''authenticated'' 1,
                      auth_row ''10.0.0.7'' ''authenticated'' 14]"

definition sample_services :: "service_subscription list" where
  "sample_services = [service_row ''USR0001'' ''active'', service_row ''SUS0001'' ''suspended'',
                      service_row ''USR0002'' ''pending'', service_row ''SUS0002'' ''suspended'']"

definition sample_failed_logins :: "login_event list" where
  "sample_failed_logins =
     replicate 6 (login_row ''10.0.0.7'' ''failed'') @
     replicate 5 (login_row ''10.0.0.5'' ''failed'') @
     [login_row ''10.0.0.5'' ''success'', login_row ''10.0.0.7'' ''success''] @
     replicate 7 (login_row ''10.0.0.9'' ''failed'')"

definition sample_attacks :: "request_log list" where
  "sample_attacks = [request_row ''10.0.0.4'' ''blank'', request_row ''10.0.0.9'' ''dos_attack'',
                     request_row ''10.0.0.4'' ''blank'', request_row ''10.0.0.1'' ''normal'',
                     request_row ''10.0.0.4'' ''dos_attack'', request_row ''10.0.0.9'' ''blank'']"

definition sample_store :: store where
  "sample_store = [LoginTable sample_failed_logins, SessionTable sample_sessions,
                   AuthTable sample_attempts, RequestTable sample_attacks,
                   ServiceTable sample_services]"

lemmas sample_defs = sample_logins_def sample_auths_def sample_requests_def
  sample_logins_hi_def sample_auths_hi_def sample_requests_hi_def sample_sessions_def
  sample_attempts_def sample_services_def
  login_row_def auth_row_def request_row_def session_row_def service_row_def

section \<open>Facts about the pandas operations\<close>

lemma getitem_mask_map:
  "getitem_mask df (map p df) = filter p df"
  unfolding getitem_mask_def
  by (induction df) auto

lemma getitem_eq_series:
  "getitem_mask df (eq_series (column c df) v) = filter (\<lambda>r. c r = v) df"
  unfolding eq_series_def column_def map_map comp_def
  by (rule getitem_mask_map)


section \<open>The fraud risk score: rates, formula and range\<close>









section \<open>The risk level\<close>

text \<open>
  Claim C2. The risk level is a step function of the score: below 15 it is LOW, from 15
  up to but excluding 30 it is MEDIUM, from 30 up to but excluding 50 it is HIGH, and from
  50 on it is CRITICAL; so 14.99 is LOW, 15.0 MEDIUM, 29.99 MEDIUM, 30.0 HIGH, 49.99 HIGH
  and 50.0 CRITICAL.
\<close>

theorem risk_level_step:
  "(score < 15 \<longrightarrow> risk_level score = ''LOW'') \<and>
   (15 \<le> score \<and> score < 30 \<longrightarrow> risk_level score = ''MEDIUM'') \<and>
   (30 \<le> score \<and> score < 50 \<longrightarrow> risk_level score = ''HIGH'') \<and>
   (50 \<le> score \<longrightarrow> risk_level score = ''CRITICAL'') \<and>
   risk_level 14.99 = ''LOW'' \<and> risk_level 15.0 = ''MEDIUM'' \<and>
   risk_level 29.99 = ''MEDIUM'' \<and> risk_level 30.0 = ''HIGH'' \<and>
   risk_level 49.99 = ''HIGH'' \<and> risk_level 50.0 = ''CRITICAL''"
  by (simp add: risk_level_def)

theorem risk_level_step_witness:
  "(3::real) < 15 \<and> risk_level 3 = ''LOW'' \<and>
   (15::real) \<le> 20.4 \<and> (20.4::real) < 30 \<and> risk_level 20.4 = ''MEDIUM'' \<and>
   (30::real) \<le> 42.5 \<and> (42.5::real) < 50 \<and> risk_level 42.5 = ''HIGH'' \<and>
   (50::real) \<le> 77 \<and> risk_level 77 = ''CRITICAL''"
  using risk_level_step [of 3] risk_level_step [of "20.4"] risk_level_step [of "42.5"]
    risk_level_step [of 77]
  by simp

section \<open>Empty tables\<close>

text \<open>
  Claim C3, as the code has it. When one of the three tables is empty, the rate of that
  table divides by zero: the gauge raises \<^verbatim>\<open>ZeroDivisionError\<close> and returns no score.
  No rate is defined as 0 for an empty table.
\<close>

theorem empty_table_raises:
  assumes "login_df = [] \<or> unauth_df = [] \<or> request_df = []"
  shows "create_fraud_score_gauge login_df unauth_df request_df = Inl ZeroDivisionError"
proof -
  have l: "failed_login_rate [] = Inl ZeroDivisionError"
    by (simp add: failed_login_rate_def truediv_def bind_err_def)
  have u: "unauth_rate [] = Inl ZeroDivisionError"
    by (simp add: unauth_rate_def truediv_def bind_err_def)
  have r: "attack_rate [] = Inl ZeroDivisionError"
    by (simp add: attack_rate_def truediv_def bind_err_def)
  have fl: "failed_login_rate login_df = Inl ZeroDivisionError \<or> (\<exists>a. failed_login_rate login_df = Inr a)"
    by (simp add: failed_login_rate_def truediv_def bind_err_def)
  have un: "unauth_rate unauth_df = Inl ZeroDivisionError \<or> (\<exists>a. unauth_rate unauth_df = Inr a)"
    by (simp add: unauth_rate_def truediv_def bind_err_def)
  from assms fl un l u r show ?thesis
    unfolding create_fraud_score_gauge_def
    by (auto simp: bind_err_def)
qed

theorem empty_table_raises_witness:
  "(sample_logins = [] \<or> ([]::auth_attempt list) = [] \<or> sample_requests = []) \<and>
   create_fraud_score_gauge sample_logins [] sample_requests = Inl ZeroDivisionError"
  using empty_table_raises [of sample_logins "[]" sample_requests]
  by simp

text \<open>
  With an empty login table and non-empty authentication and request tables the gauge
  fails, and the failed-login rate is not 0.
\<close>

theorem empty_logins_counterexample:
  "create_fraud_score_gauge [] sample_auths sample_requests = Inl ZeroDivisionError \<and>
   failed_login_rate [] \<noteq> Inr 0"
  by (simp add: create_fraud_score_gauge_def failed_login_rate_def truediv_def bind_err_def)


section \<open>Monotonicity of the score\<close>

lemma gauge_of_rates:
  assumes "failed_login_rate login_df = Inr a" and "unauth_rate unauth_df = Inr u"
    and "attack_rate request_df = Inr r"
  shows "create_fraud_score_gauge login_df unauth_df request_df
           = Inr (fraud_score a u r, risk_level (fraud_score a u r))"
  unfolding create_fraud_score_gauge_def
  by (simp add: assms bind_err_def)

text \<open>
  Claim C8. The score does not decrease when one of the three rates grows and the other
  two stay the same: for two inputs on which the gauge returns scores \<open>s\<close> and \<open>s'\<close>,
  with rates \<open>a, u, r\<close> and \<open>a', u', r'\<close>, a larger failed-login rate, a larger
  unauthenticated rate or a larger attack rate alone gives \<open>s \<le> s'\<close>.
\<close>

theorem fraud_score_monotone:
  assumes "failed_login_rate login_df = Inr a" and "unauth_rate unauth_df = Inr u"
    and "attack_rate request_df = Inr r"
    and "failed_login_rate login_df' = Inr a'" and "unauth_rate unauth_df' = Inr u'"
    and "attack_rate request_df' = Inr r'"
    and "create_fraud_score_gauge login_df unauth_df request_df = Inr (s, t)"
    and "create_fraud_score_gauge login_df' unauth_df' request_df' = Inr (s', t')"
  shows "(a \<le> a' \<and> u = u' \<and> r = r' \<longrightarrow> s \<le> s') \<and>
         (a = a' \<and> u \<le> u' \<and> r = r' \<longrightarrow> s \<le> s') \<and>
         (a = a' \<and> u = u' \<and> r \<le> r' \<longrightarrow> s \<le> s')"
proof -
  have s: "s = fraud_score a u r"
    using gauge_of_rates[OF assms(1-3)] assms(7) by simp
  have s': "s' = fraud_score a' u' r'"
    using gauge_of_rates[OF assms(4-6)] assms(8) by simp
  show ?thesis unfolding s s' fraud_score_def by simp
qed

lemma sample_rates:
  "failed_login_rate sample_logins = Inr 25" "failed_login_rate sample_logins_hi = Inr 100"
  "unauth_rate sample_auths = Inr 50" "unauth_rate sample_auths_hi = Inr 100"
  "attack_rate sample_requests = Inr 50" "attack_rate sample_requests_hi = Inr 100"
  by (simp_all add: failed_login_rate_def unauth_rate_def attack_rate_def truediv_def
        bind_err_def getitem_mask_def eq_series_def isin_def column_def sample_defs)

lemma sample_gauges:
  "create_fraud_score_gauge sample_logins sample_auths sample_requests = Inr (85 / 2, ''HIGH'')"
  "create_fraud_score_gauge sample_logins_hi sample_auths sample_requests = Inr (65, ''CRITICAL'')"
  "create_fraud_score_gauge sample_logins sample_auths_hi sample_requests = Inr (125 / 2, ''CRITICAL'')"
  "create_fraud_score_gauge sample_logins sample_auths sample_requests_hi = Inr (115 / 2, ''CRITICAL'')"
  by (simp_all add: create_fraud_score_gauge_def sample_rates bind_err_def fraud_score_def
        risk_level_def)

theorem fraud_score_monotone_witness:
  "failed_login_rate sample_logins = Inr 25 \<and> failed_login_rate sample_logins_hi = Inr 100 \<and>
   unauth_rate sample_auths = Inr 50 \<and> unauth_rate sample_auths_hi = Inr 100 \<and>
   attack_rate sample_requests = Inr 50 \<and> attack_rate sample_requests_hi = Inr 100 \<and>
   create_fraud_score_gauge sample_logins sample_auths sample_requests = Inr (85 / 2, ''HIGH'') \<and>
   create_fraud_score_gauge sample_logins_hi sample_auths sample_requests = Inr (65, ''CRITICAL'') \<and>
   create_fraud_score_gauge sample_logins sample_auths_hi sample_requests = Inr (125 / 2, ''CRITICAL'') \<and>
   create_fraud_score_gauge sample_logins sample_auths sample_requests_hi = Inr (115 / 2, ''CRITICAL'') \<and>
   (85 / 2 :: real) \<le> 65 \<and> (85 / 2 :: real) \<le> 125 / 2 \<and> (85 / 2 :: real) \<le> 115 / 2"
proof -
  have 1: "(85 / 2 :: real) \<le> 65"
    using fraud_score_monotone [OF sample_rates(1) sample_rates(3) sample_rates(5)
        sample_rates(2) sample_rates(3) sample_rates(5) sample_gauges(1) sample_gauges(2)]
    by simp
  have 2: "(85 / 2 :: real) \<le> 125 / 2"
    using fraud_score_monotone [OF sample_rates(1) sample_rates(3) sample_rates(5)
        sample_rates(1) sample_rates(4) sample_rates(5) sample_gauges(1) sample_gauges(3)]
    by simp
  have 3: "(85 / 2 :: real) \<le> 115 / 2"
    using fraud_score_monotone [OF sample_rates(1) sample_rates(3) sample_rates(5)
        sample_rates(1) sample_rates(3) sample_rates(6) sample_gauges(1) sample_gauges(4)]
    by simp
  show ?thesis
    using 1 2 3 sample_rates sample_gauges by simp
qed

section \<open>Row filters of the anomaly tab\<close>

lemma map2_map_map:
  "map2 f (map p xs) (map q xs) = map (\<lambda>x. f (p x) (q x)) xs"
  by (induction xs) auto

lemma getitem_or_mask:
  "getitem_mask df (or_mask (map p df) (map q df)) = filter (\<lambda>r. p r \<or> q r) df"
  unfolding or_mask_def map2_map_map
  by (rule getitem_mask_map)

lemma getitem_and_mask:
  "getitem_mask df (and_mask (map p df) (map q df)) = filter (\<lambda>r. p r \<and> q r) df"
  unfolding and_mask_def map2_map_map
  by (rule getitem_mask_map)

lemma suspicious_sessions_filter:
  "suspicious_sessions df =
     filter (\<lambda>s. duration_minutes s < 3 \<or> duration_minutes s > 180) df"
  unfolding suspicious_sessions_def lt_series_def gt_series_def column_def map_map comp_def
  by (rule getitem_or_mask)

lemma brute_force_filter:
  "brute_force df =
     filter (\<lambda>a. auth_status a = ''unauthenticated'' \<and> attempt_count a > 10) df"
  unfolding brute_force_def eq_series_def gt_series_def column_def map_map comp_def
  by (rule getitem_and_mask)

lemma dos_attacks_filter:
  "dos_attacks df = filter (\<lambda>r. request_type r = ''dos_attack'') df"
  unfolding dos_attacks_def by (rule getitem_eq_series)

lemma suspended_services_filter:
  "suspended_services df = filter (\<lambda>r. status r = ''suspended'') df"
  unfolding suspended_services_def by (rule getitem_eq_series)

text \<open>
  Claim C5. The suspicious sessions are exactly the rows with a duration below 3 minutes
  together with the rows with a duration above 180 minutes; a session of exactly 3 or
  exactly 180 minutes is not flagged.
\<close>

theorem session_anomaly_set:
  "set (suspicious_sessions df) =
     {s. s \<in> set df \<and> duration_minutes s < 3} \<union> {s. s \<in> set df \<and> duration_minutes s > 180} \<and>
   (s \<in> set df \<and> (duration_minutes s = 3 \<or> duration_minutes s = 180)
      \<longrightarrow> s \<notin> set (suspicious_sessions df))"
  unfolding suspicious_sessions_filter by auto

theorem session_anomaly_set_witness:
  "set (suspicious_sessions sample_sessions) =
     {session_row ''SES00001'' 2, session_row ''SES00005'' 181} \<and>
   session_row ''SES00002'' 3 \<in> set sample_sessions \<and>
   session_row ''SES00002'' 3 \<notin> set (suspicious_sessions sample_sessions) \<and>
   session_row ''SES00004'' 180 \<in> set sample_sessions \<and>
   session_row ''SES00004'' 180 \<notin> set (suspicious_sessions sample_sessions)"
proof -
  have a: "session_row ''SES00002'' 3 \<in> set sample_sessions"
    and b: "session_row ''SES00004'' 180 \<in> set sample_sessions"
    by (simp_all add: sample_sessions_def)
  have c: "session_row ''SES00002'' 3 \<notin> set (suspicious_sessions sample_sessions)"
    using session_anomaly_set [of sample_sessions "session_row ''SES00002'' 3"] a
    by (simp add: session_row_def)
  have d: "session_row ''SES00004'' 180 \<notin> set (suspicious_sessions sample_sessions)"
    using session_anomaly_set [of sample_sessions "session_row ''SES00004'' 180"] b
    by (simp add: session_row_def)
  have e: "set (suspicious_sessions sample_sessions) =
     {session_row ''SES00001'' 2, session_row ''SES00005'' 181}"
    by (simp add: suspicious_sessions_filter sample_sessions_def session_row_def)
  from a b c d e show ?thesis by simp
qed

text \<open>
  Claim C6. The brute-force rows are exactly the rows that are unauthenticated and have
  an attempt count strictly above 10; an unauthenticated row with exactly 10 attempts is
  not flagged.
\<close>

theorem brute_force_set:
  "set (brute_force df) =
     {a. a \<in> set df \<and> auth_status a = ''unauthenticated'' \<and> attempt_count a > 10} \<and>
   (a \<in> set df \<and> auth_status a = ''unauthenticated'' \<and> attempt_count a = 10
      \<longrightarrow> a \<notin> set (brute_force df))"
  unfolding brute_force_filter by auto

theorem brute_force_set_witness:
  "set (brute_force sample_attempts) = {auth_row ''10.0.0.8'' ''unauthenticated'' 11} \<and>
   auth_row ''10.0.0.9'' ''unauthenticated'' 10 \<in> set sample_attempts \<and>
   auth_status (auth_row ''10.0.0.9'' ''unauthenticated'' 10) = ''unauthenticated'' \<and>
   attempt_count (auth_row ''10.0.0.9'' ''unauthenticated'' 10) = 10 \<and>
   auth_row ''10.0.0.9'' ''unauthenticated'' 10 \<notin> set (brute_force sample_attempts)"
proof -
  have a: "auth_row ''10.0.0.9'' ''unauthenticated'' 10 \<in> set sample_attempts"
    by (simp add: sample_attempts_def)
  have b: "auth_status (auth_row ''10.0.0.9'' ''unauthenticated'' 10) = ''unauthenticated''"
    "attempt_count (auth_row ''10.0.0.9'' ''unauthenticated'' 10) = 10"
    by (simp_all add: auth_row_def)
  have c: "auth_row ''10.0.0.9'' ''unauthenticated'' 10 \<notin> set (brute_force sample_attempts)"
    using brute_force_set [of sample_attempts "auth_row ''10.0.0.9'' ''unauthenticated'' 10"] a b
    by simp
  have e: "set (brute_force sample_attempts) = {auth_row ''10.0.0.8'' ''unauthenticated'' 11}"
    by (simp add: brute_force_filter sample_attempts_def auth_row_def)
  from a b c e show ?thesis by simp
qed

lemma filter_subseq_nths:
  "subseq (filter p df) df \<and> filter p df = nths df {i. i < length df \<and> p (df ! i)}"
  by (rule conjI, rule subseq_filter_left, rule filter_eq_nths)

text \<open>
  Claim C10. Each of the four row filters (sessions, brute force, DOS attacks, suspended
  services) returns a subsequence of its table: the flagged rows are the rows at the
  flagged positions, each once, in the order of the table.
\<close>

theorem row_filters_subsequence:
  "subseq (suspicious_sessions df2) df2 \<and>
   suspicious_sessions df2 = nths df2 {i. i < length df2 \<and>
      (duration_minutes (df2 ! i) < 3 \<or> duration_minutes (df2 ! i) > 180)} \<and>
   subseq (brute_force df3) df3 \<and>
   brute_force df3 = nths df3 {i. i < length df3 \<and>
      auth_status (df3 ! i) = ''unauthenticated'' \<and> attempt_count (df3 ! i) > 10} \<and>
   subseq (dos_attacks df4) df4 \<and>
   dos_attacks df4 = nths df4 {i. i < length df4 \<and> request_type (df4 ! i) = ''dos_attack''} \<and>
   subseq (suspended_services df5) df5 \<and>
   suspended_services df5 = nths df5 {i. i < length df5 \<and> status (df5 ! i) = ''suspended''}"
  unfolding suspicious_sessions_filter brute_force_filter dos_attacks_filter
    suspended_services_filter
  by (intro conjI subseq_filter_left filter_eq_nths)

theorem row_filters_subsequence_witness:
  "suspicious_sessions sample_sessions = [session_row ''SES00001'' 2, session_row ''SES00005'' 181] \<and>
   subseq [session_row ''SES00001'' 2, session_row ''SES00005'' 181] sample_sessions \<and>
   brute_force sample_attempts = [auth_row ''10.0.0.8'' ''unauthenticated'' 11] \<and>
   subseq [auth_row ''10.0.0.8'' ''unauthenticated'' 11] sample_attempts \<and>
   dos_attacks sample_requests = [request_row ''10.0.0.9'' ''dos_attack''] \<and>
   subseq [request_row ''10.0.0.9'' ''dos_attack''] sample_requests \<and>
   suspended_services sample_services =
     [service_row ''SUS0001'' ''suspended'', service_row ''SUS0002'' ''suspended''] \<and>
   subseq [service_row ''SUS0001'' ''suspended'', service_row ''SUS0002'' ''suspended'']
     sample_services"
proof -
  have v: "suspicious_sessions sample_sessions =
             [session_row ''SES00001'' 2, session_row ''SES00005'' 181]"
    "brute_force sample_attempts = [auth_row ''10.0.0.8'' ''unauthenticated'' 11]"
    "dos_attacks sample_requests = [request_row ''10.0.0.9'' ''dos_attack'']"
    "suspended_services sample_services =
       [service_row ''SUS0001'' ''suspended'', service_row ''SUS0002'' ''suspended'']"
    by (simp_all add: suspicious_sessions_filter brute_force_filter dos_attacks_filter
          suspended_services_filter sample_defs)
  have "subseq (suspicious_sessions sample_sessions) sample_sessions \<and>
        subseq (brute_force sample_attempts) sample_attempts \<and>
        subseq (dos_attacks sample_requests) sample_requests \<and>
        subseq (suspended_services sample_services) sample_services"
    using row_filters_subsequence [of sample_sessions sample_attempts sample_requests
        sample_services]
    by (elim conjE, intro conjI)
  then show ?thesis
    unfolding v by simp
qed


section \<open>Grouped counts\<close>

subsection \<open>Series of counts\<close>



lemma mset_sort_values_desc: "mset (sort_values_desc s) = mset s"
  unfolding sort_values_desc_def by simp

lemma set_sort_values_desc: "set (sort_values_desc s) = set s"
  unfolding sort_values_desc_def by simp

lemma length_sort_values_desc: "length (sort_values_desc s) = length s"
  unfolding sort_values_desc_def by simp

lemma distinct_fst_sort_values_desc:
  "distinct (map fst (sort_values_desc s)) = distinct (map fst s)"
proof -
  have "mset (map fst (sort_values_desc s)) = mset (map fst s)"
    by (simp add: mset_sort_values_desc)
  then show ?thesis by (rule mset_eq_imp_distinct_iff)
qed

lemma sorted_sort_values_desc:
  "sorted_wrt (\<lambda>a b. snd b \<le> snd a) (sort_values_desc s)"
proof -
  have "sorted (map snd (sort_key snd (rev s)))"
    by (rule sorted_sort_key)
  then have "sorted_wrt (\<lambda>a b. snd a \<le> snd b) (sort_key snd (rev s))"
    by (simp add: sorted_map)
  then show ?thesis
    unfolding sort_values_desc_def by (simp add: sorted_wrt_rev)
qed

text \<open>A series lists counts: every entry carries the count of its label.\<close>

lemma snd_by_fst:
  assumes "\<And>k n. (k, n) \<in> set s \<Longrightarrow> n = f k"
  shows "map snd s = map f (map fst s)"
  using assms by (induction s) auto

lemma groupby_size_keys:
  "map fst (groupby_size c df) = sort (remdups (column c df))"
  unfolding groupby_size_def by (simp add: comp_def)

lemma groupby_size_entry:
  "(k, n) \<in> set (groupby_size c df) \<Longrightarrow> n = length (filter (\<lambda>r. c r = k) df)"
  unfolding groupby_size_def by auto

lemma groupby_size_distinct: "distinct (map fst (groupby_size c df))"
  unfolding groupby_size_keys by simp

lemma groupby_size_set_keys: "set (map fst (groupby_size c df)) = c ` set df"
  unfolding groupby_size_keys column_def by simp





subsection \<open>Failed logins per address\<close>

lemma failed_by_ip_entry:
  assumes "(ip, n) \<in> set (failed_by_ip df)"
  shows "n = length (filter (\<lambda>r. login_status r = ''failed'' \<and> login_event.ip_address r = ip) df)"
proof -
  have "n = length (filter (\<lambda>r. login_event.ip_address r = ip)
                     (filter (\<lambda>r. login_status r = ''failed'') df))"
    using assms unfolding failed_by_ip_def getitem_eq_series by (rule groupby_size_entry)
  then show ?thesis by (simp add: conj_commute)
qed

lemma failed_by_ip_keys:
  "set (map fst (failed_by_ip df)) =
     login_event.ip_address ` {r. r \<in> set df \<and> login_status r = ''failed''}"
  unfolding failed_by_ip_def getitem_eq_series groupby_size_set_keys by simp

lemma critical_ips_eq:
  "critical_ips df = sort_values_desc (filter (\<lambda>e. 5 < snd e) (failed_by_ip df))"
  unfolding critical_ips_def gt_series_def column_def map_map comp_def
  by (simp only: getitem_mask_map)

lemma critical_ips_entry:
  assumes "(ip, n) \<in> set (critical_ips df)"
  shows "n = length (filter (\<lambda>r. login_status r = ''failed'' \<and> login_event.ip_address r = ip) df)"
    and "5 < n"
  using assms failed_by_ip_entry unfolding critical_ips_eq set_sort_values_desc by auto

lemma critical_ips_keys:
  "set (map fst (critical_ips df)) =
     {ip. 5 < length (filter (\<lambda>r. login_status r = ''failed'' \<and> login_event.ip_address r = ip) df)}"
    (is "?L = ?R")
proof (rule set_eqI)
  fix ip
  let ?n = "length (filter (\<lambda>r. login_status r = ''failed'' \<and> login_event.ip_address r = ip) df)"
  show "ip \<in> ?L \<longleftrightarrow> ip \<in> ?R"
  proof
    assume "ip \<in> ?L"
    then obtain n where m: "(ip, n) \<in> set (critical_ips df)" by auto
    from critical_ips_entry[OF m] show "ip \<in> ?R" by simp
  next
    assume r: "ip \<in> ?R"
    then have pos: "5 < ?n" by simp
    then have "filter (\<lambda>r. login_status r = ''failed'' \<and> login_event.ip_address r = ip) df \<noteq> []"
      by auto
    then obtain r where "r \<in> set df" "login_status r = ''failed''" "login_event.ip_address r = ip"
      by (auto simp: filter_empty_conv)
    then have "ip \<in> set (map fst (failed_by_ip df))"
      unfolding failed_by_ip_keys by auto
    then obtain n where m: "(ip, n) \<in> set (failed_by_ip df)" by auto
    from failed_by_ip_entry[OF m] pos have "5 < n" by simp
    with m have "(ip, n) \<in> set (critical_ips df)"
      unfolding critical_ips_eq set_sort_values_desc by simp
    then show "ip \<in> ?L" by force
  qed
qed

lemma critical_ips_distinct: "distinct (map fst (critical_ips df))"
  unfolding critical_ips_eq distinct_fst_sort_values_desc failed_by_ip_def
  by (rule distinct_map_filter) (rule groupby_size_distinct)

text \<open>
  Claim C7. The failed-login anomaly counts the failed logins of each address and flags
  exactly the addresses with more than 5 of them: the flagged addresses are distinct,
  each is listed with its count of failed logins, and the list is in descending order of
  count.
\<close>

theorem critical_ips_ranked:
  "set (map fst (critical_ips df)) =
     {ip. 5 < length (filter (\<lambda>r. login_status r = ''failed'' \<and>
                                   login_event.ip_address r = ip) df)} \<and>
   distinct (map fst (critical_ips df)) \<and>
   map snd (critical_ips df) =
     map (\<lambda>ip. length (filter (\<lambda>r. login_status r = ''failed'' \<and>
                                     login_event.ip_address r = ip) df))
       (map fst (critical_ips df)) \<and>
   sorted_wrt (\<lambda>a b. snd b \<le> snd a) (critical_ips df)"
proof (intro conjI)
  show "map snd (critical_ips df) =
     map (\<lambda>ip. length (filter (\<lambda>r. login_status r = ''failed'' \<and>
                                     login_event.ip_address r = ip) df))
       (map fst (critical_ips df))"
    by (rule snd_by_fst) (rule critical_ips_entry(1))
  show "sorted_wrt (\<lambda>a b. snd b \<le> snd a) (critical_ips df)"
    unfolding critical_ips_eq by (rule sorted_sort_values_desc)
qed (rule critical_ips_keys critical_ips_distinct)+


lemma critical_ips_sample:
  "critical_ips sample_failed_logins = [(''10.0.0.9'', 7), (''10.0.0.7'', 6)]"
  by code_simp

theorem critical_ips_ranked_witness:
  "critical_ips sample_failed_logins = [(''10.0.0.9'', 7), (''10.0.0.7'', 6)] \<and>
   set (map fst (critical_ips sample_failed_logins)) =
     {ip. 5 < length (filter (\<lambda>r. login_status r = ''failed'' \<and>
                                   login_event.ip_address r = ip) sample_failed_logins)} \<and>
   sorted_wrt (\<lambda>a b. snd b \<le> snd a) (critical_ips sample_failed_logins)"
  using critical_ips_ranked [of sample_failed_logins] critical_ips_sample
  by (elim conjE, intro conjI)

subsection \<open>Attacking addresses\<close>






text \<open>
  The table of the anomaly tab itself, \<^verbatim>\<open>dos_by_ip\<close>, counts the flagged DOS rows only
  and exists only when there is one.
\<close>

lemma dos_by_ip_eq:
  "dos_by_ip df =
     (if filter (\<lambda>r. request_type r = ''dos_attack'') df = [] then None
      else Some (take 10 (sort_values_desc (groupby_size request_log.ip_address
                   (filter (\<lambda>r. request_type r = ''dos_attack'') df)))))"
  unfolding dos_by_ip_def dos_attacks_filter head_def by simp

lemma dos_by_ip_sample:
  "dos_by_ip sample_attacks = Some [(''10.0.0.4'', 1), (''10.0.0.9'', 1)]"
  by code_simp


section \<open>The analysis only reads the loaded tables\<close>

lemma extends_ret: "extends (ret x)"
  by (simp add: extends_def ret_def)

lemma extends_raise: "extends (raise e)"
  by (simp add: extends_def raise_def)

lemma extends_lift: "extends (lift v)"
  by (cases v) (simp_all add: lift_def extends_ret extends_raise)

lemma extends_alloc: "extends (alloc v)"
  by (simp add: extends_def alloc_def)

lemma extends_deref: "extends (deref r)"
  by (simp add: extends_def deref_def)

lemma extends_bind:
  assumes m: "extends m" and f: "\<And>x. extends (f x)"
  shows "extends (bind m f)"
  unfolding extends_def
proof
  fix h
  obtain v h' where mh: "m h = (v, h')" by (cases "m h")
  from m mh have p: "prefix h h'" unfolding extends_def by (metis snd_conv)
  show "prefix h (snd (bind m f h))"
  proof (cases v)
    case (Inl e)
    with mh p show ?thesis by (simp add: bind_def)
  next
    case (Inr x)
    from f have "prefix h' (snd (f x h'))" unfolding extends_def by blast
    with p have "prefix h (snd (f x h'))" by (rule prefix_order.trans)
    with mh Inr show ?thesis by (simp add: bind_def)
  qed
qed

lemma extends_read_logins: "extends (read_logins r)"
  unfolding read_logins_def
  by (rule extends_bind) (auto intro: extends_deref extends_ret extends_raise split: obj.split)

lemma extends_read_sessions: "extends (read_sessions r)"
  unfolding read_sessions_def
  by (rule extends_bind) (auto intro: extends_deref extends_ret extends_raise split: obj.split)

lemma extends_read_auths: "extends (read_auths r)"
  unfolding read_auths_def
  by (rule extends_bind) (auto intro: extends_deref extends_ret extends_raise split: obj.split)

lemma extends_read_requests: "extends (read_requests r)"
  unfolding read_requests_def
  by (rule extends_bind) (auto intro: extends_deref extends_ret extends_raise split: obj.split)

lemma extends_read_services: "extends (read_services r)"
  unfolding read_services_def
  by (rule extends_bind) (auto intro: extends_deref extends_ret extends_raise split: obj.split)

lemmas extends_intros = extends_bind extends_ret extends_raise extends_lift extends_alloc
  extends_read_logins extends_read_sessions extends_read_auths extends_read_requests
  extends_read_services

lemma extends_run_fraud_score_gauge: "extends (run_fraud_score_gauge l u r)"
  unfolding run_fraud_score_gauge_def by (intro extends_intros)

lemma extends_anomaly_failed_logins: "extends (anomaly_failed_logins l)"
  unfolding anomaly_failed_logins_def by (intro extends_intros)

lemma extends_anomaly_sessions: "extends (anomaly_sessions s)"
  unfolding anomaly_sessions_def by (intro extends_intros)

lemma extends_anomaly_brute_force: "extends (anomaly_brute_force u)"
  unfolding anomaly_brute_force_def by (intro extends_intros)

lemma extends_anomaly_dos: "extends (anomaly_dos r)"
  unfolding anomaly_dos_def
  by (intro extends_intros) (auto intro!: extends_intros split: option.split)

lemma extends_anomaly_suspended: "extends (anomaly_suspended v)"
  unfolding anomaly_suspended_def by (intro extends_intros)

lemma extends_anomaly_detection: "extends (anomaly_detection l s u r v)"
  unfolding anomaly_detection_def
  by (intro extends_intros extends_anomaly_failed_logins extends_anomaly_sessions
        extends_anomaly_brute_force extends_anomaly_dos extends_anomaly_suspended)

lemma extends_take: "extends m \<Longrightarrow> take (length h) (snd (m h)) = h"
  unfolding extends_def prefix_def by (metis append_eq_conv_conj)

text \<open>
  Claim C9. The fraud-score computation and the five anomaly detections leave every
  object that was in the store before them as it was, the five input tables among them:
  no row is added, changed, removed or moved. What they compute goes to new objects, and
  this holds also when the computation fails.
\<close>

theorem analysis_reads_only:
  "take (length h) (snd (run_fraud_score_gauge login_df unauth_df request_df h)) = h \<and>
   take (length h) (snd (anomaly_failed_logins df1_login h)) = h \<and>
   take (length h) (snd (anomaly_sessions df2_duration h)) = h \<and>
   take (length h) (snd (anomaly_brute_force df3_unauth h)) = h \<and>
   take (length h) (snd (anomaly_dos df4_requests h)) = h \<and>
   take (length h) (snd (anomaly_suspended df5_services h)) = h \<and>
   take (length h) (snd (anomaly_detection df1_login df2_duration df3_unauth df4_requests
                           df5_services h)) = h"
  by (intro conjI extends_take extends_run_fraud_score_gauge extends_anomaly_failed_logins
        extends_anomaly_sessions extends_anomaly_brute_force extends_anomaly_dos
        extends_anomaly_suspended extends_anomaly_detection)


theorem analysis_reads_only_witness:
  "take 5 (snd (run_fraud_score_gauge 0 2 3 sample_store)) = sample_store \<and>
   snd (anomaly_detection 0 1 2 3 4 sample_store) ! 0 = LoginTable sample_failed_logins \<and>
   snd (anomaly_detection 0 1 2 3 4 sample_store) ! 1 = SessionTable sample_sessions \<and>
   snd (anomaly_detection 0 1 2 3 4 sample_store) ! 2 = AuthTable sample_attempts \<and>
   snd (anomaly_detection 0 1 2 3 4 sample_store) ! 3 = RequestTable sample_attacks \<and>
   snd (anomaly_detection 0 1 2 3 4 sample_store) ! 4 = ServiceTable sample_services"
proof -
  have n: "length sample_store = 5" by (simp add: sample_store_def)
  note t = analysis_reads_only [of sample_store 0 2 3 0 1 2 3 4, unfolded n]
  from t have g: "take 5 (snd (run_fraud_score_gauge 0 2 3 sample_store)) = sample_store"
    by (elim conjE)
  from t have a: "take 5 (snd (anomaly_detection 0 1 2 3 4 sample_store)) = sample_store"
    by (elim conjE)
  have "\<And>i. i < 5 \<Longrightarrow> snd (anomaly_detection 0 1 2 3 4 sample_store) ! i = sample_store ! i"
    using a by (metis nth_take)
  then have "snd (anomaly_detection 0 1 2 3 4 sample_store) ! 0 = sample_store ! 0"
    "snd (anomaly_detection 0 1 2 3 4 sample_store) ! 1 = sample_store ! 1"
    "snd (anomaly_detection 0 1 2 3 4 sample_store) ! 2 = sample_store ! 2"
    "snd (anomaly_detection 0 1 2 3 4 sample_store) ! 3 = sample_store ! 3"
    "snd (anomaly_detection 0 1 2 3 4 sample_store) ! 4 = sample_store ! 4"
    by simp_all
  then show ?thesis
    using g by (simp add: sample_store_def)
qed

text \<open>On references that hold the tables, the programs return what the analysis computes.\<close>

lemma deref_valid: "r < length h \<Longrightarrow> deref r h = (Inr (h ! r), h)"
  by (simp add: deref_def)

lemma run_fraud_score_gauge_result:
  assumes "a < length h" "h ! a = LoginTable l"
    and "b < length h" "h ! b = AuthTable u"
    and "c < length h" "h ! c = RequestTable r"
  shows "fst (run_fraud_score_gauge a b c h) = create_fraud_score_gauge l u r"
proof -
  have b': "\<And>x. (h @ [x]) ! b = AuthTable u" "\<And>x. b < Suc (length h)"
    and c': "\<And>x y. (h @ [x, y]) ! c = RequestTable r" "\<And>x. c < Suc (Suc (length h))"
    using assms by (simp_all add: nth_append)
  show ?thesis
    unfolding run_fraud_score_gauge_def create_fraud_score_gauge_def read_logins_def
      read_auths_def read_requests_def
    using assms b' c'
    by (cases "failed_login_rate l"; cases "unauth_rate u"; cases "attack_rate r")
       (simp_all add: bind_def deref_def alloc_def lift_def ret_def raise_def bind_err_def)
qed

lemma anomaly_failed_logins_result:
  assumes "a < length h" "h ! a = LoginTable l"
  shows "anomaly_failed_logins a h =
           (Inr (length h + 2),
            h @ [LoginTable (filter (\<lambda>r. login_status r = ''failed'') l),
                 CountSeries (failed_by_ip l), CountSeries (critical_ips l)])"
  unfolding anomaly_failed_logins_def read_logins_def getitem_eq_series
  using assms by (simp add: bind_def deref_def alloc_def ret_def)

lemma anomaly_sessions_result:
  assumes "a < length h" "h ! a = SessionTable t"
  shows "anomaly_sessions a h = (Inr (length h), h @ [SessionTable (suspicious_sessions t)])"
  unfolding anomaly_sessions_def read_sessions_def
  using assms by (simp add: bind_def deref_def alloc_def ret_def)

lemma anomaly_brute_force_result:
  assumes "a < length h" "h ! a = AuthTable t"
  shows "anomaly_brute_force a h = (Inr (length h), h @ [AuthTable (brute_force t)])"
  unfolding anomaly_brute_force_def read_auths_def
  using assms by (simp add: bind_def deref_def alloc_def ret_def)

lemma anomaly_dos_result:
  assumes "a < length h" "h ! a = RequestTable t"
  shows "anomaly_dos a h =
           (case dos_by_ip t of
              None \<Rightarrow> (Inr (length h, None), h @ [RequestTable (dos_attacks t)])
            | Some s \<Rightarrow> (Inr (length h, Some (length h + 1)),
                          h @ [RequestTable (dos_attacks t), CountSeries s]))"
  unfolding anomaly_dos_def read_requests_def
  using assms by (simp add: bind_def deref_def alloc_def ret_def split: option.split)

lemma anomaly_suspended_result:
  assumes "a < length h" "h ! a = ServiceTable t"
  shows "anomaly_suspended a h = (Inr (length h), h @ [ServiceTable (suspended_services t)])"
  unfolding anomaly_suspended_def read_services_def
  using assms by (simp add: bind_def deref_def alloc_def ret_def)


end
